theory Spec2Isabelle
  imports Complex_Main
begin

section \<open>CameraTransform: a shallow embedding over the real numbers\<close>

text \<open>
  The embedding follows \<^verbatim>\<open>CameraTransform/CameraTransform.py\<close>. Numbers are
  real numbers: rounding of IEEE doubles is not modelled. Where numpy would go on with
  \<open>inf\<close> or \<open>nan\<close> (a division by zero on numpy floats, which only warns), the model
  stops with \<open>NonFinite\<close>: that value is not a Python exception, it says that the
  computation has left what real numbers can describe. All other errors are the Python
  exceptions the source raises at that place.

  A numpy array of shape [2xN] or [3xN] is the list of its N columns (the points).
\<close>

subsection \<open>Errors\<close>

datatype error =
    ValueError string
  | LinAlgError
  | TypeError
  | AttributeError
  | IndexError
  | ZeroDivisionError
  | NonFinite

definition truthy :: "real option \<Rightarrow> bool" where
  \<comment> \<open>Python's \<^verbatim>\<open>if v:\<close> on a value that is None or a number\<close>
  "truthy v = (case v of None \<Rightarrow> False | Some a \<Rightarrow> a \<noteq> 0)"

subsection \<open>The linear algebra the source takes from numpy\<close>

type_synonym vec2 = "real \<times> real"
type_synonym vec3 = "real \<times> real \<times> real"
type_synonym vec4 = "real \<times> real \<times> real \<times> real"
type_synonym mat33 = "vec3 \<times> vec3 \<times> vec3"
type_synonym mat34 = "vec4 \<times> vec4 \<times> vec4"
type_synonym mat44 = "vec4 \<times> vec4 \<times> vec4 \<times> vec4"

text \<open>Matrices are tuples of rows. \<open>np.dot\<close> at the shapes the source uses it:\<close>

fun dot_33_31 :: "mat33 \<Rightarrow> vec3 \<Rightarrow> vec3" where
  "dot_33_31 ((a00, a01, a02), (a10, a11, a12), (a20, a21, a22)) (x, y, z) =
     (a00 * x + a01 * y + a02 * z,
      a10 * x + a11 * y + a12 * z,
      a20 * x + a21 * y + a22 * z)"

fun col33 :: "mat33 \<Rightarrow> nat \<Rightarrow> vec3" where
  "col33 ((a00, a01, a02), (a10, a11, a12), (a20, a21, a22)) j =
     (if j = 0 then (a00, a10, a20) else if j = 1 then (a01, a11, a21) else (a02, a12, a22))"

definition transpose33 :: "mat33 \<Rightarrow> mat33" where
  "transpose33 A = (col33 A 0, col33 A 1, col33 A 2)"

definition dot_33_33 :: "mat33 \<Rightarrow> mat33 \<Rightarrow> mat33" where
  "dot_33_33 A B =
     transpose33 (dot_33_31 A (col33 B 0), dot_33_31 A (col33 B 1), dot_33_31 A (col33 B 2))"

fun dot_34_41 :: "mat34 \<Rightarrow> vec4 \<Rightarrow> vec3" where
  "dot_34_41 ((a00, a01, a02, a03), (a10, a11, a12, a13), (a20, a21, a22, a23)) (x, y, z, w) =
     (a00 * x + a01 * y + a02 * z + a03 * w,
      a10 * x + a11 * y + a12 * z + a13 * w,
      a20 * x + a21 * y + a22 * z + a23 * w)"

fun col44 :: "mat44 \<Rightarrow> nat \<Rightarrow> vec4" where
  "col44 ((a00, a01, a02, a03), (a10, a11, a12, a13), (a20, a21, a22, a23), (a30, a31, a32, a33)) j =
     (if j = 0 then (a00, a10, a20, a30) else if j = 1 then (a01, a11, a21, a31)
      else if j = 2 then (a02, a12, a22, a32) else (a03, a13, a23, a33))"

fun rows_of_cols34 :: "vec3 \<Rightarrow> vec3 \<Rightarrow> vec3 \<Rightarrow> vec3 \<Rightarrow> mat34" where
  "rows_of_cols34 (a0, a1, a2) (b0, b1, b2) (c0, c1, c2) (d0, d1, d2) =
     ((a0, b0, c0, d0), (a1, b1, c1, d1), (a2, b2, c2, d2))"

definition dot_34_44 :: "mat34 \<Rightarrow> mat44 \<Rightarrow> mat34" where
  "dot_34_44 A B =
     rows_of_cols34 (dot_34_41 A (col44 B 0)) (dot_34_41 A (col44 B 1))
                    (dot_34_41 A (col44 B 2)) (dot_34_41 A (col44 B 3))"

text \<open>\<open>np.hstack((M, t))\<close> of a 3x3 block and a 3x1 column, \<open>np.vstack((M, row))\<close>:\<close>

definition hstack_33_31 :: "mat33 \<Rightarrow> vec3 \<Rightarrow> mat34" where
  "hstack_33_31 M v = rows_of_cols34 (col33 M 0) (col33 M 1) (col33 M 2) v"

fun vstack_34_14 :: "mat34 \<Rightarrow> vec4 \<Rightarrow> mat44" where
  "vstack_34_14 (r0, r1, r2) r3 = (r0, r1, r2, r3)"

subsection \<open>The camera object\<close>

text \<open>
  The attributes of the class, each \<open>None\<close> until it is set. The one-letter attributes
  \<^verbatim>\<open>f\<close>, \<^verbatim>\<open>t\<close>, \<^verbatim>\<open>R\<close>, \<^verbatim>\<open>C\<close> are \<open>self_f\<close>, \<open>self_t\<close>, \<open>self_R\<close>, \<open>self_C\<close>.
\<close>

record camera =
  self_t :: "vec3 option"
  self_R :: "mat44 option"
  self_C :: "mat34 option"
  R_earth :: real
  height :: "real option"
  roll :: "real option"
  heading :: "real option"
  tilt :: "real option"
  tan_tilt :: "real option"
  pos_x :: "real option"
  pos_y :: "real option"
  fixed_horizon :: "real option"
  estimated_height :: real
  estimated_tilt :: real
  estimated_heading :: real
  estimated_roll :: real
  self_f :: "real option"
  sensor_width :: "real option"
  sensor_height :: "real option"
  fov_h_angle :: "real option"
  fov_v_angle :: "real option"
  im_width :: "real option"
  im_height :: "real option"
  f_normed :: "real option"
  C1 :: "mat34 option"
  R_tilt :: "mat33 option"
  R_roll :: "mat33 option"
  R_head :: "mat33 option"

definition class_defaults :: camera where
  \<comment> \<open>the class attributes, lines 96-132\<close>
  "class_defaults =
     \<lparr> self_t = None, self_R = None, self_C = None,
       R_earth = 6371000,
       height = None, roll = None, heading = Some 0, tilt = None, tan_tilt = None,
       pos_x = Some 0, pos_y = Some 0,
       fixed_horizon = None,
       estimated_height = 30, estimated_tilt = 85, estimated_heading = 0, estimated_roll = 0,
       self_f = None, sensor_width = None, sensor_height = None,
       fov_h_angle = None, fov_v_angle = None, im_width = None, im_height = None,
       f_normed = None, C1 = None, R_tilt = None, R_roll = None, R_head = None \<rparr>"

subsection \<open>Intrinsic matrix\<close>

definition initIntrinsicMatrix :: "camera \<Rightarrow> error + camera" where
  \<comment> \<open>\<^verbatim>\<open>_initIntrinsicMatrix\<close>; the sensor width is a numpy float, so dividing by a zero
      width does not raise\<close>
  "initIntrinsicMatrix s =
     (case (self_f s, sensor_width s, im_width s, im_height s) of
        (Some fl, Some sw, Some w, Some h) \<Rightarrow>
          if sw = 0 then Inl NonFinite
          else
            let fn = fl / sw * w in
            Inr (s\<lparr> f_normed := Some fn,
                    C1 := Some ((fn, 0, w / 2, 0), (0, fn, h / 2, 0), (0, 0, 1, 0)) \<rparr>)
      | _ \<Rightarrow> Inl TypeError)"

subsection \<open>Camera matrix\<close>

definition rot_tilt :: "real \<Rightarrow> mat33" where
  "rot_tilt a = ((1, 0, 0), (0, cos a, sin a), (0, - sin a, cos a))"

definition rot_z :: "real \<Rightarrow> mat33" where
  \<comment> \<open>the matrix written out twice in the source, for roll and for heading\<close>
  "rot_z a = ((cos a, sin a, 0), (- sin a, cos a, 0), (0, 0, 1))"

definition build_matrices :: "camera \<Rightarrow> real option \<Rightarrow> real \<Rightarrow> real \<Rightarrow> real \<Rightarrow> error + camera" where
  \<comment> \<open>lines 205-226 of \<^verbatim>\<open>_initCameraMatrix\<close>, with the local variables \<open>height\<close>,
      \<open>angle\<close>, \<open>roll\<close>, \<open>heading\<close> as arguments\<close>
  "build_matrices s height_v angle roll_v heading_v =
     (case (height_v, pos_x s, pos_y s) of
        (Some h, Some px, Some py) \<Rightarrow>
          (let t0 = (px, py, - h);
               Rt = rot_tilt angle;
               Rr = rot_z roll_v;
               Rh = rot_z heading_v;
               t1 = dot_33_31 Rt t0;
               Rm = vstack_34_14 (hstack_33_31 (dot_33_33 (dot_33_33 Rr Rt) Rh) t1) (0, 0, 0, 1)
           in (case C1 s of
                 None \<Rightarrow> Inl AttributeError
               | Some c1 \<Rightarrow>
                   Inr (s\<lparr> self_t := Some t1, R_tilt := Some Rt, R_roll := Some Rr,
                           R_head := Some Rh, self_R := Some Rm,
                           self_C := Some (dot_34_44 c1 Rm) \<rparr>)))
      | _ \<Rightarrow> Inl TypeError)"

definition store_args :: "camera \<Rightarrow> real option \<Rightarrow> real option \<Rightarrow> camera" where
  \<comment> \<open>lines 179-186: an argument that is given is stored, one that is None is read from
      the object; afterwards the locals \<open>tilt_angle\<close> and \<open>height\<close> equal the attributes\<close>
  "store_args s height_arg tilt_arg =
     (let s1 = (case tilt_arg of None \<Rightarrow> s | Some a \<Rightarrow> s\<lparr>tilt := Some a\<rparr>)
      in (case height_arg of None \<Rightarrow> s1 | Some h \<Rightarrow> s1\<lparr>height := Some h\<rparr>))"

definition roll_radians :: "camera \<Rightarrow> real option \<Rightarrow> real" where
  \<comment> \<open>lines 188-194\<close>
  "roll_radians s roll_arg =
     (case roll_arg of
        None \<Rightarrow> (if truthy (roll s) then the (roll s) * pi / 180 else 0)
      | Some ra \<Rightarrow> ra * pi / 180)"

definition heading_radians :: "camera \<Rightarrow> real" where
  \<comment> \<open>lines 196-199\<close>
  "heading_radians s = (if truthy (heading s) then the (heading s) * pi / 180 else 0)"

definition initCameraMatrix ::
    "camera \<Rightarrow> real option \<Rightarrow> real option \<Rightarrow> real option \<Rightarrow> error + camera" where
  \<comment> \<open>\<^verbatim>\<open>_initCameraMatrix(self, height=None, tilt_angle=None, roll_angle=None)\<close>.
      On an exception the half-updated object is not returned.\<close>
  "initCameraMatrix s height_arg tilt_arg roll_arg =
     (let s2 = store_args s height_arg tilt_arg
      in case tilt s2 of
           None \<Rightarrow> Inl TypeError
         | Some ta \<Rightarrow>
          (let angle0 = ta * pi / 180;
               roll_v = roll_radians s2 roll_arg;
               heading_v = heading_radians s2;
               angle = (if truthy (tan_tilt s2) then pi / 2 - arctan (the (tan_tilt s2)) else angle0);
               s3 = (if truthy (tan_tilt s2) then s2\<lparr>tilt := Some (angle * 180 / pi)\<rparr> else s2)
           in build_matrices s3 (height s2) angle roll_v heading_v))"

subsection \<open>Projection and back-projection\<close>

definition det33 :: "mat33 \<Rightarrow> real" where
  "det33 A =
     (case A of ((a, b, c), (d, e, f), (g, h, i)) \<Rightarrow>
        a * (e * i - f * h) - b * (d * i - f * g) + c * (d * h - e * g))"

definition replace_col33 :: "mat33 \<Rightarrow> nat \<Rightarrow> vec3 \<Rightarrow> mat33" where
  "replace_col33 A j v =
     transpose33 (if j = 0 then v else col33 A 0,
                  if j = 1 then v else col33 A 1,
                  if j = 2 then v else col33 A 2)"

definition cramer :: "mat33 \<Rightarrow> vec3 \<Rightarrow> vec3" where
  "cramer A b =
     (det33 (replace_col33 A 0 b) / det33 A,
      det33 (replace_col33 A 1 b) / det33 A,
      det33 (replace_col33 A 2 b) / det33 A)"

definition linalg_solve :: "mat33 \<Rightarrow> vec3 list \<Rightarrow> error + vec3 list" where
  \<comment> \<open>\<open>np.linalg.solve(P, x)\<close>, numpy's own code, as its documentation has it: the exact
      solution of \<open>P X = x\<close> for every column of \<open>x\<close>, \<open>LinAlgError\<close> when \<open>P\<close> is
      singular. The solution is written by Cramer's rule.\<close>
  "linalg_solve P xs = (if det33 P = 0 then Inl LinAlgError else Inr (map (cramer P) xs))"

fun perspective :: "vec3 \<Rightarrow> error + vec2" where
  \<comment> \<open>\<open>X[:2] / X[2]\<close> for one column\<close>
  "perspective (a, b, c) = (if c = 0 then Inl NonFinite else Inr (a / c, b / c))"

fun collect :: "('a \<Rightarrow> error + 'b) \<Rightarrow> 'a list \<Rightarrow> error + 'b list" where
  "collect g [] = Inr []"
| "collect g (x # xs) =
     (case g x of
        Inl e \<Rightarrow> Inl e
      | Inr y \<Rightarrow> (case collect g xs of Inl e \<Rightarrow> Inl e | Inr ys \<Rightarrow> Inr (y # ys)))"

fun homogeneous3 :: "vec3 \<Rightarrow> vec4" where
  "homogeneous3 (x, y, z) = (x, y, z, 1)"

fun homogeneous2 :: "vec2 \<Rightarrow> vec3" where
  "homogeneous2 (u, v) = (u, v, 1)"

definition transWorldToCam :: "camera \<Rightarrow> vec3 list \<Rightarrow> error + vec2 list" where
  "transWorldToCam s x =
     (case self_C s of
        None \<Rightarrow> Inl TypeError
      | Some c \<Rightarrow> collect (\<lambda>p. perspective (dot_34_41 c (homogeneous3 p))) x)"

fun reduced :: "mat34 \<Rightarrow> real \<Rightarrow> nat \<Rightarrow> mat33" where
  \<comment> \<open>\<open>P[:, dimension] = P[:, dimension] * fixed + P[:, 3]; P = P[:, :3]\<close>\<close>
  "reduced ((a00, a01, a02, a03), (a10, a11, a12, a13), (a20, a21, a22, a23)) fixed dimension =
     (if dimension = 0 then
        ((a00 * fixed + a03, a01, a02), (a10 * fixed + a13, a11, a12), (a20 * fixed + a23, a21, a22))
      else if dimension = 1 then
        ((a00, a01 * fixed + a03, a02), (a10, a11 * fixed + a13, a12), (a20, a21 * fixed + a23, a22))
      else if dimension = 2 then
        ((a00, a01, a02 * fixed + a03), (a10, a11, a12 * fixed + a13), (a20, a21, a22 * fixed + a23))
      else
        ((a00, a01, a02), (a10, a11, a12), (a20, a21, a22)))"

fun rescale :: "real \<Rightarrow> nat \<Rightarrow> vec3 \<Rightarrow> error + vec3" where
  \<comment> \<open>\<open>X = X / X[dimension]; X[dimension] = fixed\<close> for one column\<close>
  "rescale fixed dimension (a, b, c) =
     (if dimension = 0 then (if a = 0 then Inl NonFinite else Inr (fixed, b / a, c / a))
      else if dimension = 1 then (if b = 0 then Inl NonFinite else Inr (a / b, fixed, c / b))
      else if dimension = 2 then (if c = 0 then Inl NonFinite else Inr (a / c, b / c, fixed))
      else Inl IndexError)"

definition transCamToWorldFixedDimension ::
    "camera \<Rightarrow> vec2 list \<Rightarrow> real \<Rightarrow> nat \<Rightarrow> error + vec3 list" where
  \<comment> \<open>\<^verbatim>\<open>_transCamToWorldFixedDimension(self, x, fixed, dimension)\<close>\<close>
  "transCamToWorldFixedDimension s x fixed dimension =
     (case self_C s of
        None \<Rightarrow> Inl AttributeError
      | Some c \<Rightarrow>
          if dimension > 3 then Inl IndexError
          else (case linalg_solve (reduced c fixed dimension) (map homogeneous2 x) of
                  Inl e \<Rightarrow> Inl e
                | Inr X \<Rightarrow>
                    if dimension = 3 then Inl IndexError
                    else collect (rescale fixed dimension) X))"

datatype fixed_arg = Scalar real | Seq "real list"

fun per_point :: "camera \<Rightarrow> nat \<Rightarrow> vec2 list \<Rightarrow> real list \<Rightarrow> error + vec3 list" where
  \<comment> \<open>the list comprehension of lines 321-323: column \<open>i\<close> with \<open>fixed[i]\<close>\<close>
  "per_point s dimension [] fixed = Inr []"
| "per_point s dimension (p # ps) [] = Inl IndexError"
| "per_point s dimension (p # ps) (z # zs) =
     (case transCamToWorldFixedDimension s [p] z dimension of
        Inl e \<Rightarrow> Inl e
      | Inr X \<Rightarrow>
          (case X of
             [] \<Rightarrow> Inl IndexError
           | v # _ \<Rightarrow>
               (case per_point s dimension ps zs of
                  Inl e \<Rightarrow> Inl e
                | Inr vs \<Rightarrow> Inr (v # vs))))"

definition exactly_one_msg :: string where
  "exactly_one_msg = ''Exactly one of X, Y, Z has to be given.''"

definition count_none :: "fixed_arg option \<Rightarrow> fixed_arg option \<Rightarrow> fixed_arg option \<Rightarrow> nat" where
  \<comment> \<open>\<open>(X is None) + (Y is None) + (Z is None)\<close>\<close>
  "count_none X Y Z =
     (if X = None then 1 else 0) + (if Y = None then 1 else 0) + (if Z = None then 1 else 0)"

definition transCamToWorld ::
    "camera \<Rightarrow> vec2 list \<Rightarrow> fixed_arg option \<Rightarrow> fixed_arg option \<Rightarrow> fixed_arg option
       \<Rightarrow> error + vec3 list" where
  "transCamToWorld s x X Y Z =
     (if count_none X Y Z \<noteq> 2 then Inl (ValueError exactly_one_msg)
      else
        let (fixed, dimension) =
              (case X of Some v \<Rightarrow> (v, 0)
               | None \<Rightarrow> (case Y of Some v \<Rightarrow> (v, 1) | None \<Rightarrow> (the Z, 2)))
        in (case fixed of
              Seq zs \<Rightarrow>
                (if x = [] then Inl IndexError else per_point s dimension x zs)
            | Scalar z \<Rightarrow> transCamToWorldFixedDimension s x z dimension))"

subsection \<open>Construction\<close>

datatype sensor_arg = Width real | WidthHeight real real

definition init ::
    "real option \<Rightarrow> sensor_arg option \<Rightarrow> (real \<times> real) option \<Rightarrow> real option \<Rightarrow> real option
       \<Rightarrow> error + camera" where
  \<comment> \<open>\<^verbatim>\<open>__init__(self, focal_length, sensor_size, image_size, observer_height,
      angel_to_horizon)\<close>, every argument defaulting to None. A sensor size that is a number
      is \<open>Width\<close>, a pair is \<open>WidthHeight\<close>. The source checks no sign anywhere.\<close>
  "init focal_length sensor_size image_size observer_height angel_to_horizon =
     (case (if truthy focal_length then
              (case image_size of
                 None \<Rightarrow> Inl TypeError
               | Some (w, h) \<Rightarrow>
                  (case sensor_size of
                     None \<Rightarrow> Inl TypeError
                   | Some ss \<Rightarrow>
                      (case (case ss of
                               Width a \<Rightarrow> if w = 0 then Inl ZeroDivisionError else Inr (a, a * h / w)
                             | WidthHeight a b \<Rightarrow> Inr (a, b)) of
                         Inl e \<Rightarrow> Inl e
                       | Inr (sw, sh) \<Rightarrow>
                           (let fl = the focal_length / 1000
                            in initIntrinsicMatrix
                                 (class_defaults
                                    \<lparr> self_f := Some fl,
                                      im_width := Some w, im_height := Some h,
                                      sensor_width := Some (sw / 1000),
                                      sensor_height := Some (sh / 1000),
                                      fov_h_angle := Some (2 * arctan (sw / 1000 / (2 * fl))),
                                      fov_v_angle := Some (2 * arctan (sh / 1000 / (2 * fl))) \<rparr>)))))
            else Inr class_defaults) of
        Inl e \<Rightarrow> Inl e
      | Inr s \<Rightarrow>
          (case observer_height of
             None \<Rightarrow> Inr s
           | Some oh \<Rightarrow>
               initCameraMatrix (s\<lparr> height := Some oh, tilt := angel_to_horizon \<rparr>) None None None))"

subsection \<open>Earth curvature\<close>

text \<open>
  \<open>transWorldToEarth\<close> and \<open>transEarthToWorld\<close> copy their argument and assign into the
  copy, so arrays live in a store: a list of arrays, the address of an array being its
  index. The arrays here are one-dimensional arrays of floats, a single point
  \<open>[x, y, z]\<close>. Both functions return the store and the camera object next to their result,
  also when they raise.
\<close>

type_synonym store = "real list list"

definition array_copy :: "store \<Rightarrow> nat \<Rightarrow> nat \<times> store" where
  \<comment> \<open>\<open>x.copy()\<close>: a new array with the contents of the old one\<close>
  "array_copy h a = (length h, h @ [h ! a])"

definition norm3 :: "vec3 \<Rightarrow> real" where
  \<comment> \<open>\<open>np.linalg.norm\<close> of a vector of three components\<close>
  "norm3 v = (case v of (a, b, c) \<Rightarrow> sqrt (a ^ 2 + b ^ 2 + c ^ 2))"

definition broadcast_msg :: string where
  "broadcast_msg = ''operands could not be broadcast together''"

definition transWorldToEarth :: "camera \<Rightarrow> store \<Rightarrow> nat \<Rightarrow> (error + nat) \<times> store \<times> camera" where
  \<comment> \<open>lines 353-359. \<open>x - earth_center\<close> needs an \<open>x\<close> of length 3 (an \<open>x\<close> of length 1
      is broadcast, and \<open>x[1]\<close> fails afterwards); a zero \<open>r_eff\<close> gives \<open>nan\<close>.\<close>
  "transWorldToEarth s h a =
     (if a \<ge> length h then (Inl AttributeError, h, s)
      else
        let (x, h1) = array_copy h a;
            xs = h1 ! x
        in if length xs = 1 then (Inl IndexError, h1, s)
           else if length xs \<noteq> 3 then (Inl (ValueError broadcast_msg), h1, s)
           else
             let r_eff = norm3 (xs ! 0 - 0, xs ! 1 - 0, xs ! 2 - (- R_earth s))
             in if r_eff = 0 then (Inl NonFinite, h1, s)
                else
                  let h2 = h1[x := (h1 ! x)[1 := arccos ((h1 ! x) ! 1 / r_eff) * r_eff]];
                      h3 = h2[x := (h2 ! x)[2 := r_eff]]
                  in (Inr x, h3, s))"

definition transEarthToWorld :: "camera \<Rightarrow> store \<Rightarrow> nat \<Rightarrow> (error + nat) \<times> store \<times> camera" where
  \<comment> \<open>lines 361-367. A zero radius divides by zero; where the cosine of \<open>alpha\<close> is zero
      the tangent has no real value.\<close>
  "transEarthToWorld s h a =
     (if a \<ge> length h then (Inl AttributeError, h, s)
      else
        let (x, h1) = array_copy h a;
            xs = h1 ! x
        in if length xs < 3 then (Inl IndexError, h1, s)
           else
             let radius = xs ! 2 + R_earth s
             in if radius = 0 then (Inl NonFinite, h1, s)
                else
                  let alpha = xs ! 1 / radius
                  in if cos alpha = 0 then (Inl NonFinite, h1, s)
                     else
                       let h2 = h1[x := (h1 ! x)[1 := tan alpha * radius]];
                           h3 = h2[x := (h2 ! x)[2 := radius - radius * cos alpha]]
                       in (Inr x, h3, s))"

definition earth_roundtrip :: "camera \<Rightarrow> store \<Rightarrow> nat \<Rightarrow> error + real list" where
  \<comment> \<open>\<open>transEarthToWorld(transWorldToEarth(x))\<close>, and the contents of the array it returns\<close>
  "earth_roundtrip s h a =
     (case transWorldToEarth s h a of
        (Inl e, _, _) \<Rightarrow> Inl e
      | (Inr b, h1, s1) \<Rightarrow>
          (case transEarthToWorld s1 h1 b of
             (Inl e, _, _) \<Rightarrow> Inl e
           | (Inr c, h2, _) \<Rightarrow> Inr (h2 ! c)))"

text \<open>
  \<open>transCamToEarth\<close>, lines 327-348. One round of the inner loop is \<open>round_at\<close>: the
  back-projection onto the plane \<open>Z = next_z\<close> and the angle \<open>alpha\<close>. \<open>earth_iter\<close> is the
  inner \<open>for ... else\<close> with \<open>n\<close> rounds left; \<open>new_point\<close> and \<open>alpha\<close> are assigned
  before the outer loop and live on from one input point to the next, so they are carried
  along. The last component of the result counts the rounds that were run; the source
  keeps no such counter, it is there to state the bound on the iteration.
\<close>

fun vsub :: "vec3 \<Rightarrow> vec3 \<Rightarrow> vec3" where
  "vsub (a, b, c) (x, y, z) = (a - x, b - y, c - z)"

definition next_height :: "real \<Rightarrow> real \<Rightarrow> real" where
  \<comment> \<open>\<open>next_z = -(r / np.cos(alpha) - r)\<close>; the cosine of an arc tangent is never zero\<close>
  "next_height r alpha = - (r / cos alpha - r)"

definition round_at :: "camera \<Rightarrow> vec2 \<Rightarrow> real \<Rightarrow> real \<Rightarrow> error + vec3 \<times> real" where
  \<comment> \<open>lines 339-340; \<open>new_point[1] / r\<close> is a numpy float over \<open>r\<close>\<close>
  "round_at s point r next_z =
     (case transCamToWorldFixedDimension s [point] next_z 2 of
        Inl e \<Rightarrow> Inl e
      | Inr X \<Rightarrow>
          (case X of
             [] \<Rightarrow> Inl IndexError
           | new_point # _ \<Rightarrow>
               if r = 0 then Inl NonFinite
               else Inr (new_point, arctan (fst (snd new_point) / r))))"

fun earth_iter ::
    "camera \<Rightarrow> vec2 \<Rightarrow> real \<Rightarrow> real \<Rightarrow> real \<Rightarrow> nat \<Rightarrow> vec3 option \<Rightarrow> real \<Rightarrow> vec3 option \<times> real
       \<Rightarrow> error + vec3 \<times> (vec3 option \<times> real) \<times> nat" where
  "earth_iter s point r H max_distance 0 last_point next_z (new_point, alpha) =
     (case new_point of
        None \<Rightarrow> Inl TypeError
      | Some p \<Rightarrow> Inr ((fst p, r * alpha, H), (new_point, alpha), 0))"
| "earth_iter s point r H max_distance (Suc n) last_point next_z carried =
     (case round_at s point r next_z of
        Inl e \<Rightarrow> Inl e
      | Inr (new_point, alpha) \<Rightarrow>
          if last_point \<noteq> None \<and> norm3 (vsub new_point (the last_point)) < max_distance
          then Inr ((fst new_point, r * alpha, H), (Some new_point, alpha), 1)
          else
            (case earth_iter s point r H max_distance n (Some new_point) (next_height r alpha)
                    (Some new_point, alpha) of
               Inl e \<Rightarrow> Inl e
             | Inr (res, c, k) \<Rightarrow> Inr (res, c, Suc k)))"

fun earth_points ::
    "camera \<Rightarrow> real \<Rightarrow> real \<Rightarrow> real \<Rightarrow> nat \<Rightarrow> vec3 option \<times> real \<Rightarrow> vec2 list \<Rightarrow> error + vec3 list" where
  \<comment> \<open>the outer loop over the columns of \<open>x\<close>\<close>
  "earth_points s r H max_distance max_iter carried [] = Inr []"
| "earth_points s r H max_distance max_iter carried (point # points) =
     (case earth_iter s point r H max_distance max_iter None H carried of
        Inl e \<Rightarrow> Inl e
      | Inr (res, c, k) \<Rightarrow>
          (case earth_points s r H max_distance max_iter c points of
             Inl e \<Rightarrow> Inl e
           | Inr rs \<Rightarrow> Inr (res # rs)))"

definition transCamToEarth ::
    "camera \<Rightarrow> vec2 list \<Rightarrow> real option \<Rightarrow> int \<Rightarrow> real \<Rightarrow> error + vec3 list" where
  \<comment> \<open>\<^verbatim>\<open>transCamToEarth(self, x, H=None, max_iter=100, max_distance=0.01)\<close>;
      \<open>range(max_iter)\<close> is empty for a \<open>max_iter\<close> below 1\<close>
  "transCamToEarth s x H_arg max_iter max_distance =
     (let H = (case H_arg of None \<Rightarrow> 0 | Some h \<Rightarrow> h);
          r = R_earth s + H
      in earth_points s r H max_distance (nat max_iter) (None, 0) x)"

subsection \<open>Distance and bearing\<close>

fun distanceBearing :: "camera \<Rightarrow> vec3 \<Rightarrow> error + real \<times> real" where
  \<comment> \<open>lines 422-435 for one point; on numpy floats \<open>x / y\<close> with \<open>y = 0\<close> does not raise\<close>
  "distanceBearing s (p0, p1, p2) =
     (case (pos_x s, pos_y s) of
        (Some px, Some py) \<Rightarrow>
          (let x = p0 - px;
               y = p1 - py;
               dist = sqrt (x ^ 2 + y ^ 2)
           in if y = 0 then Inl NonFinite
              else Inr (dist, - arctan (x / y) * 180 / pi))
      | _ \<Rightarrow> Inl TypeError)"

fun reflect_footpoint :: "camera \<Rightarrow> vec3 \<Rightarrow> vec3" where
  \<comment> \<open>the point opposite to \<open>p\<close> through the camera footpoint \<open>(pos_x, pos_y)\<close>\<close>
  "reflect_footpoint s (p0, p1, p2) = (2 * the (pos_x s) - p0, 2 * the (pos_y s) - p1, p2)"

subsection \<open>Fitting: the free parameters\<close>

definition estimates :: "camera \<Rightarrow> (string \<times> real) list" where
  \<comment> \<open>the dict of lines 681-682, in insertion order\<close>
  "estimates s =
     [(''height'', estimated_height s), (''tilt'', estimated_tilt s), (''roll'', estimated_roll s),
      (''heading'', estimated_heading s), (''pos_x'', 0), (''pos_y'', 0)]"

definition fit_parameters :: "camera \<Rightarrow> string list" where
  \<comment> \<open>lines 683-695 of \<^verbatim>\<open>_fit\<close>\<close>
  "fit_parameters s =
     (let fp0 = map fst (estimates s);
          fp1 = (if roll s \<noteq> None then remove1 ''roll'' fp0 else fp0);
          fp2 = (if heading s \<noteq> None then remove1 ''heading'' fp1 else fp1);
          fp3 = (if height s \<noteq> None then remove1 ''height'' fp2 else fp2);
          fp4 = (if pos_x s \<noteq> None then remove1 ''pos_x'' fp3 else fp3);
          fp5 = (if pos_y s \<noteq> None then remove1 ''pos_y'' fp4 else fp4)
      in fp5)"

definition initial_guess :: "camera \<Rightarrow> real list" where
  \<comment> \<open>\<open>[estimates[key] for key in fit_parameters]\<close>, the vector handed to \<open>minimize\<close>\<close>
  "initial_guess s = map (\<lambda>key. the (map_of (estimates s) key)) (fit_parameters s)"

definition getattr :: "camera \<Rightarrow> string \<Rightarrow> real option" where
  \<comment> \<open>the pose attribute of that name\<close>
  "getattr s key =
     (if key = ''height'' then height s
      else if key = ''tilt'' then tilt s
      else if key = ''roll'' then roll s
      else if key = ''heading'' then heading s
      else if key = ''pos_x'' then pos_x s
      else if key = ''pos_y'' then pos_y s
      else None)"

definition pose_parameters :: "string list" where
  "pose_parameters = [''height'', ''tilt'', ''roll'', ''heading'', ''pos_x'', ''pos_y'']"

subsection \<open>Notions used in the properties\<close>



fun roundtrip_Z :: "camera \<Rightarrow> vec3 \<Rightarrow> error + vec3 list" where
  \<comment> \<open>\<open>transCamToWorld(transWorldToCam(p), Z=p[2])\<close> for one point\<close>
  "roundtrip_Z s (x, y, z) =
     (case transWorldToCam s [(x, y, z)] of
        Inl e \<Rightarrow> Inl e
      | Inr uv \<Rightarrow> transCamToWorld s uv None None (Some (Scalar z)))"

fun depth :: "camera \<Rightarrow> vec3 \<Rightarrow> real" where
  \<comment> \<open>the third row of \<open>C (x, y, z, 1)\<close>, the value the projection divides by\<close>
  "depth s p = (case self_C s of None \<Rightarrow> 0 | Some c \<Rightarrow> snd (snd (dot_34_41 c (homogeneous3 p))))"

fun nondegenerate :: "camera \<Rightarrow> real \<Rightarrow> bool" where
  \<comment> \<open>the reduced matrix of the plane \<open>Z = z\<close> is regular\<close>
  "nondegenerate s z = (case self_C s of None \<Rightarrow> False | Some c \<Rightarrow> det33 (reduced c z 2) \<noteq> 0)"

fun estimate :: "camera \<Rightarrow> vec2 \<Rightarrow> real \<Rightarrow> real \<Rightarrow> nat \<Rightarrow> error + vec3 \<times> real" where
  \<comment> \<open>the sequence of corrected positions: back-project at height \<open>z\<close>, derive the
      corrected height, back-project again; \<open>estimate ... j\<close> is position number \<open>j\<close>,
      counted from 0, with its angle\<close>
  "estimate s point r z 0 = round_at s point r z"
| "estimate s point r z (Suc j) =
     (case round_at s point r z of
        Inl e \<Rightarrow> Inl e
      | Inr (p, a) \<Rightarrow> estimate s point r (next_height r a) j)"

definition round_converged ::
    "camera \<Rightarrow> vec2 \<Rightarrow> real \<Rightarrow> real \<Rightarrow> real \<Rightarrow> vec3 option \<Rightarrow> nat \<Rightarrow> bool" where
  \<comment> \<open>position \<open>j\<close> is closer than \<open>max_distance\<close> to the position before it; before
      position 0 there is \<open>before\<close>, which is None when an input point is started\<close>
  "round_converged s point r z max_distance before j =
     (case estimate s point r z j of
        Inl e \<Rightarrow> False
      | Inr (q, b) \<Rightarrow>
          (case (if j = 0 then before
                 else (case estimate s point r z (j - 1) of
                         Inl e \<Rightarrow> None
                       | Inr (p, a) \<Rightarrow> Some p)) of
             None \<Rightarrow> False
           | Some p \<Rightarrow> norm3 (vsub q p) < max_distance))"

definition frame_ok :: "camera \<Rightarrow> store \<Rightarrow> nat \<Rightarrow> (error + nat) \<times> store \<times> camera \<Rightarrow> bool" where
  \<comment> \<open>what a call on the array at address \<open>a\<close> of the store \<open>h\<close> may do: the camera object
      and every array of \<open>h\<close> are as before, and a result is a new array, as long as the
      argument and with the same first component\<close>
  "frame_ok s h a res =
     (case res of
        (r, h', s') \<Rightarrow>
           s' = s \<and> take (length h) h' = h
         \<and> (case r of
              Inl e \<Rightarrow> True
            | Inr b \<Rightarrow> b = length h \<and> length h' = Suc (length h)
                      \<and> length (h' ! b) = length (h ! a) \<and> (h' ! b) ! 0 = (h ! a) ! 0))"

definition camera_down :: camera where
  \<comment> \<open>the same camera looking straight down (tilt 0)\<close>
  "camera_down = projr (init (Some 16) (Some (Width 10)) (Some (4000, 3000)) (Some 20) (Some 0))"

fun left_block :: "mat34 \<Rightarrow> mat33" where
  \<comment> \<open>the first three columns of the camera matrix\<close>
  "left_block ((a00, a01, a02, a03), (a10, a11, a12, a13), (a20, a21, a22, a23)) =
     ((a00, a01, a02), (a10, a11, a12), (a20, a21, a22))"

definition valid_pose :: "camera \<Rightarrow> bool" where
  \<comment> \<open>the camera matrix is set and has rank 3: its left 3x3 block is regular\<close>
  "valid_pose s = (case self_C s of None \<Rightarrow> False | Some c \<Rightarrow> det33 (left_block c) \<noteq> 0)"

definition camera_90 :: camera where
  \<comment> \<open>a camera to evaluate on: focal length 16 mm, sensor width 10 mm, image 4000 x 3000,
      height 20 m, looking at the horizon (tilt 90 degrees)\<close>
  "camera_90 = projr (init (Some 16) (Some (Width 10)) (Some (4000, 3000)) (Some 20) (Some 90))"

definition supplied :: "fixed_arg option \<Rightarrow> fixed_arg option \<Rightarrow> fixed_arg option \<Rightarrow> nat" where
  \<comment> \<open>how many of the keyword arguments \<open>X\<close>, \<open>Y\<close>, \<open>Z\<close> a call supplies\<close>
  "supplied X Y Z = length (filter (\<lambda>a. a \<noteq> None) [X, Y, Z])"

section \<open>Properties\<close>

subsection \<open>The fixed-axis check of the back-projection\<close>

lemma collect_not_ValueError:
  "(\<And>x. g x \<noteq> Inl (ValueError m)) \<Longrightarrow> collect g xs \<noteq> Inl (ValueError m)"
  by (induction xs) (auto split: sum.splits)

lemma rescale_not_ValueError: "rescale fixed d v \<noteq> Inl (ValueError m)"
  by (cases v) auto

lemma fixedDimension_not_ValueError:
  "transCamToWorldFixedDimension s x z d \<noteq> Inl (ValueError m)"
  by (auto simp: transCamToWorldFixedDimension_def linalg_solve_def collect_not_ValueError
        rescale_not_ValueError split: option.splits sum.splits)

lemma per_point_not_ValueError: "per_point s d x zs \<noteq> Inl (ValueError m)"
  by (induction s d x zs rule: per_point.induct)
     (auto simp: fixedDimension_not_ValueError split: sum.splits list.splits)

text \<open>
  C2. A call of \<open>transCamToWorld\<close> ends with the error
  "Exactly one of X, Y, Z has to be given." if and only if the number of arguments supplied
  among \<open>X\<close>, \<open>Y\<close>, \<open>Z\<close> is not exactly one. The check is the first statement of the
  function, and nothing after it produces that error: with exactly one argument the
  computation goes on to the linear solve.
\<close>

theorem transCamToWorld_ValueError_iff:
  "transCamToWorld s x X Y Z = Inl (ValueError exactly_one_msg) \<longleftrightarrow> supplied X Y Z \<noteq> 1"
  by (cases X; cases Y; cases Z)
     (auto simp: transCamToWorld_def count_none_def supplied_def fixedDimension_not_ValueError
        per_point_not_ValueError split: fixed_arg.splits)

subsection \<open>Composition of the camera matrix\<close>



lemma build_matrices_tilt:
  assumes "build_matrices s hv a r hg = Inr s'"
  shows "tilt s' = tilt s" and "R_tilt s' = Some (rot_tilt a)"
  using assms
  by (auto simp: build_matrices_def Let_def split: option.splits)

lemma store_args_fields:
  "tan_tilt (store_args s h t) = tan_tilt s"
  "pos_x (store_args s h t) = pos_x s"
  "pos_y (store_args s h t) = pos_y s"
  "C1 (store_args s h t) = C1 s"
  "tilt (store_args s h t) = (case t of None \<Rightarrow> tilt s | Some a \<Rightarrow> Some a)"
  "height (store_args s h t) = (case h of None \<Rightarrow> height s | Some a \<Rightarrow> Some a)"
  by (simp_all add: store_args_def Let_def split: option.splits)

text \<open>The rebuild returns whenever a tilt and a height are known and the intrinsic matrix is set.\<close>

lemma initCameraMatrix_succeeds:
  assumes "tilt_arg \<noteq> None \<or> tilt s \<noteq> None" and "height_arg \<noteq> None \<or> height s \<noteq> None"
    and "pos_x s \<noteq> None" and "pos_y s \<noteq> None" and "C1 s \<noteq> None"
  shows "\<exists>s'. initCameraMatrix s height_arg tilt_arg roll_arg = Inr s'"
proof -
  define s2 where "s2 = store_args s height_arg tilt_arg"
  obtain ta where ta: "tilt s2 = Some ta"
    using assms(1) by (cases "tilt s2") (auto simp: s2_def store_args_fields split: option.splits)
  obtain h where h: "height s2 = Some h"
    using assms(2) by (cases "height s2") (auto simp: s2_def store_args_fields split: option.splits)
  have p: "pos_x s2 \<noteq> None" "pos_y s2 \<noteq> None" "C1 s2 \<noteq> None"
    using assms by (simp_all add: s2_def store_args_fields)
  have "\<exists>s'. build_matrices s3 (Some h) a r hg = Inr s'"
    if "pos_x s3 \<noteq> None" "pos_y s3 \<noteq> None" "C1 s3 \<noteq> None" for s3 a r hg
    using that by (auto simp: build_matrices_def Let_def)
  then show ?thesis
    using ta h p by (simp add: initCameraMatrix_def Let_def flip: s2_def)
qed

lemma init_90:
  "init (Some 16) (Some (Width 10)) (Some (4000, 3000)) (Some 20) (Some 90) = Inr camera_90"
  "self_C camera_90 = Some ((6400, -2000, 0, 0), (0, -1500, 6400, -128000), (0, -1, 0, 0))"
  "C1 camera_90 = Some ((6400, 0, 2000, 0), (0, 6400, 1500, 0), (0, 0, 1, 0))"
  "pos_x camera_90 = Some 0" "pos_y camera_90 = Some 0" "height camera_90 = Some 20"
  "tilt camera_90 = Some 90" "R_earth camera_90 = 6371000"
  by (simp_all add: camera_90_def init_def truthy_def class_defaults_def initIntrinsicMatrix_def
        initCameraMatrix_def store_args_def roll_radians_def heading_radians_def
        build_matrices_def rot_tilt_def rot_z_def dot_33_33_def transpose33_def
        hstack_33_31_def dot_34_44_def Let_def)



subsection \<open>The tangent of the tilt\<close>

lemma degrees_of_tan_tilt: "(pi / 2 - arctan tt) * 180 / pi = 90 - arctan tt * 180 / pi"
  by (simp add: field_simps)

text \<open>
  C9. When the camera matrix is rebuilt while \<open>tan_tilt\<close> is neither None nor zero, the
  tilt written back to the object is 90 degrees minus the arc tangent of \<open>tan_tilt\<close> in
  degrees, whatever tilt was passed or stored before, and the tilt rotation is the one of
  that angle, \<open>pi / 2 - arctan tan_tilt\<close> in radians.
\<close>

theorem initCameraMatrix_tan_tilt:
  assumes "initCameraMatrix s height_arg tilt_arg roll_arg = Inr s'"
    and "tan_tilt s = Some tt" and "tt \<noteq> 0"
  shows "tilt s' = Some (90 - arctan tt * 180 / pi)
       \<and> R_tilt s' = Some (rot_tilt (pi / 2 - arctan tt))"
proof -
  define s2 where "s2 = store_args s height_arg tilt_arg"
  have tt: "tan_tilt s2 = Some tt" by (simp add: s2_def store_args_fields assms(2))
  then have tr: "truthy (tan_tilt s2)" using assms(3) by (simp add: truthy_def)
  obtain ta where ta: "tilt s2 = Some ta"
    using assms(1) by (cases "tilt s2") (simp_all add: initCameraMatrix_def Let_def flip: s2_def)
  have b: "build_matrices (s2\<lparr>tilt := Some ((pi / 2 - arctan tt) * 180 / pi)\<rparr>) (height s2)
             (pi / 2 - arctan tt) (roll_radians s2 roll_arg) (heading_radians s2) = Inr s'"
    using assms(1) ta tr tt by (simp add: initCameraMatrix_def Let_def flip: s2_def)
  have "tilt s' = Some ((pi / 2 - arctan tt) * 180 / pi)"
    using build_matrices_tilt(1) [OF b] by simp
  then have "tilt s' = Some (90 - arctan tt * 180 / pi)"
    by (simp only: degrees_of_tan_tilt)
  then show ?thesis using build_matrices_tilt(2) [OF b] by simp
qed

theorem initCameraMatrix_tan_tilt_witness:
  "tilt (projr (initCameraMatrix (camera_90\<lparr>tan_tilt := Some 1\<rparr>) None (Some 30) None)) = Some 45"
proof -
  obtain s' where eq: "initCameraMatrix (camera_90\<lparr>tan_tilt := Some 1\<rparr>) None (Some 30) None = Inr s'"
    using initCameraMatrix_succeeds [of "Some 30" "camera_90\<lparr>tan_tilt := Some 1\<rparr>" None None]
    by (auto simp: init_90)
  have "tilt s' = Some (90 - arctan 1 * 180 / pi)"
    using initCameraMatrix_tan_tilt [OF eq, of 1] by simp
  then show ?thesis by (simp add: eq arctan_one)
qed

subsection \<open>Projection and back-projection are inverse on a plane of fixed Z\<close>

lemma cramer_solves:
  assumes "det33 A \<noteq> 0"
  shows "cramer A (dot_33_31 A w) = w"
proof -
  obtain a b c d e f g h i where A: "A = ((a, b, c), (d, e, f), (g, h, i))"
    by (metis prod_cases3)
  obtain x y z where w: "w = (x, y, z)" by (metis prod_cases3)
  have D: "a * (e * i - f * h) - b * (d * i - f * g) + c * (d * h - e * g) \<noteq> 0"
    using assms by (simp add: A det33_def)
  have "cramer ((a, b, c), (d, e, f), (g, h, i))
          (dot_33_31 ((a, b, c), (d, e, f), (g, h, i)) (x, y, z)) = (x, y, z)"
    using D by (simp add: cramer_def det33_def replace_col33_def transpose33_def field_simps)
  then show ?thesis by (simp add: A w)
qed

lemma projected_is_image_of_scaled:
  assumes "dot_34_41 c (x, y, z, 1) = (X0, X1, X2)" and "X2 \<noteq> 0"
  shows "dot_33_31 (reduced c z 2) (x / X2, y / X2, 1 / X2) = (X0 / X2, X1 / X2, 1)"
proof -
  obtain a00 a01 a02 a03 a10 a11 a12 a13 a20 a21 a22 a23
    where c: "c = ((a00, a01, a02, a03), (a10, a11, a12, a13), (a20, a21, a22, a23))"
    by (metis prod_cases4 prod_cases3)
  show ?thesis
    using assms unfolding c by (auto simp: field_simps)
qed

text \<open>
  The determinant of the reduced matrix of the plane \<open>Z = z\<close> is affine in \<open>z\<close>, with the
  determinant of the left block as its slope: a camera of valid pose has exactly one
  plane of fixed \<open>Z\<close> whose reduced matrix is singular, the plane through the camera centre.
\<close>

lemma det_reduced_affine:
  "det33 (reduced c z 2) = z * det33 (left_block c) + det33 (reduced c 0 2)"
proof -
  obtain a00 a01 a02 a03 a10 a11 a12 a13 a20 a21 a22 a23
    where c: "c = ((a00, a01, a02, a03), (a10, a11, a12, a13), (a20, a21, a22, a23))"
    by (metis prod_cases4 prod_cases3)
  show ?thesis by (simp add: c det33_def algebra_simps)
qed

text \<open>
  C1, as the claim states it, fails: a valid pose and a nonzero depth are not enough. The
  camera \<open>camera_90\<close> has a camera matrix of rank 3 and stands at height 20; the world
  point \<open>(0, 50, 20)\<close> has depth -50 under it, and it is projected to the image, but the
  plane \<open>Z = 20\<close> goes through the camera centre, its reduced matrix is singular, and the
  back-projection raises \<open>LinAlgError\<close> instead of returning the point.
\<close>

theorem roundtrip_Z_singular_plane:
  "valid_pose camera_90 \<and> depth camera_90 (0, 50, 20) = - 50
   \<and> roundtrip_Z camera_90 (0, 50, 20) = Inl LinAlgError"
  by (simp add: valid_pose_def init_90 det33_def transWorldToCam_def transCamToWorld_def
        count_none_def transCamToWorldFixedDimension_def linalg_solve_def)

text \<open>
  C1, amended. For every camera and every world point \<open>p = (x, y, z)\<close> of nonzero depth
  such that the reduced matrix of the plane \<open>Z = z\<close> is regular (the plane does not go
  through the camera centre), projecting \<open>p\<close> to the image and projecting the image point
  back with \<open>Z\<close> fixed to \<open>z\<close> returns \<open>p\<close>. Over the real numbers the points are equal,
  not only close.
\<close>

theorem roundtrip_Z_recovers:
  assumes "nondegenerate s (snd (snd p))" and "depth s p \<noteq> 0"
  shows "roundtrip_Z s p = Inr [p]"
proof -
  obtain x y z where p: "p = (x, y, z)" by (metis prod_cases3)
  obtain c where c: "self_C s = Some c" and det: "det33 (reduced c z 2) \<noteq> 0"
    using assms(1) by (auto simp: p split: option.splits)
  obtain X0 X1 X2 where X: "dot_34_41 c (x, y, z, 1) = (X0, X1, X2)"
    by (metis prod_cases3)
  have X2: "X2 \<noteq> 0" using assms(2) by (simp add: p c X)
  have fwd: "transWorldToCam s [(x, y, z)] = Inr [(X0 / X2, X1 / X2)]"
    using X2 by (simp add: transWorldToCam_def c X)
  have "cramer (reduced c z 2) (X0 / X2, X1 / X2, 1) = (x / X2, y / X2, 1 / X2)"
    using cramer_solves [OF det, of "(x / X2, y / X2, 1 / X2)"]
    by (simp add: projected_is_image_of_scaled [OF X X2])
  then have "transCamToWorldFixedDimension s [(X0 / X2, X1 / X2)] z 2 = Inr [(x, y, z)]"
    using det X2 by (simp add: transCamToWorldFixedDimension_def c linalg_solve_def)
  then show ?thesis
    by (simp add: p fwd transCamToWorld_def count_none_def)
qed

theorem roundtrip_Z_recovers_witness:
  "nondegenerate camera_90 0 \<and> depth camera_90 (0, 50, 0) \<noteq> 0
     \<and> roundtrip_Z camera_90 (0, 50, 0) = Inr [(0, 50, 0)]"
proof -
  have n: "nondegenerate camera_90 (snd (snd (0, 50, 0)))" by (simp add: init_90 det33_def)
  have d: "depth camera_90 (0, 50, 0) \<noteq> 0" by (simp add: init_90)
  show ?thesis using n d roundtrip_Z_recovers [OF n d] by simp
qed

subsection \<open>The free parameters of a fit\<close>

text \<open>
  C3, as the claim states it, fails: \<open>_fit\<close> never removes \<open>tilt\<close>. A camera constructed
  with a tilt of 90 degrees has a non-null tilt, and \<open>tilt\<close> is among the parameters handed
  to the optimizer all the same.
\<close>

theorem fit_parameters_keeps_fixed_tilt:
  "''tilt'' \<in> set (fit_parameters camera_90) \<and> getattr camera_90 ''tilt'' = Some 90"
  by (simp add: fit_parameters_def estimates_def getattr_def init_90 Let_def)

text \<open>
  C3, amended. The free-parameter list of \<open>_fit\<close> is the full list height, tilt, roll,
  heading, pos_x, pos_y, in that order, without those of height, roll, heading, pos_x and
  pos_y that are non-null; tilt is always kept, there being no way to fix it.
\<close>

theorem fit_parameters_free_or_tilt:
  "fit_parameters s = filter (\<lambda>key. key = ''tilt'' \<or> getattr s key = None) pose_parameters"
  by (cases "roll s"; cases "heading s"; cases "height s"; cases "pos_x s"; cases "pos_y s")
     (simp_all add: fit_parameters_def estimates_def getattr_def pose_parameters_def Let_def)

subsection \<open>Construction checks no sign\<close>

text \<open>
  C7, as the claim states it, fails: a camera with a negative focal length, negative sensor
  dimensions and negative image dimensions is constructed without an error, and the
  negative focal length is stored.
\<close>

theorem init_negative_accepted:
  "\<not> isl (init (Some (- 16)) (Some (WidthHeight (- 10) (- 7.5))) (Some (- 4000, - 3000)) None None)
   \<and> self_f (projr (init (Some (- 16)) (Some (WidthHeight (- 10) (- 7.5)))
                         (Some (- 4000, - 3000)) None None))
       = Some (- 2 / 125)"
  by (simp add: init_def truthy_def initIntrinsicMatrix_def class_defaults_def Let_def)

text \<open>
  C7, amended. The constructor checks no sign: with any focal length other than zero, a
  sensor size given as a pair whose width is not zero, and any image size, negative values
  included, the camera is constructed and the intrinsic state holds the values as given
  (lengths in metres), the normalised focal length and the intrinsic matrix made of them.
\<close>

theorem init_checks_no_sign:
  assumes "fl \<noteq> 0" and "sw \<noteq> 0"
  shows "\<exists>s. init (Some fl) (Some (WidthHeight sw sh)) (Some (w, h)) None None = Inr s
           \<and> self_f s = Some (fl / 1000) \<and> sensor_width s = Some (sw / 1000)
           \<and> sensor_height s = Some (sh / 1000) \<and> im_width s = Some w \<and> im_height s = Some h
           \<and> f_normed s = Some (fl / 1000 / (sw / 1000) * w)
           \<and> C1 s = Some ((fl / 1000 / (sw / 1000) * w, 0, w / 2, 0),
                           (0, fl / 1000 / (sw / 1000) * w, h / 2, 0), (0, 0, 1, 0))"
  using assms
  by (simp add: init_def truthy_def initIntrinsicMatrix_def class_defaults_def Let_def)

theorem init_checks_no_sign_witness:
  "\<exists>s. init (Some (- 16)) (Some (WidthHeight (- 10) 0)) (Some (0, - 3000)) None None = Inr s
         \<and> self_f s = Some (- 2 / 125) \<and> sensor_width s = Some (- 1 / 100)
         \<and> sensor_height s = Some 0 \<and> im_width s = Some 0 \<and> im_height s = Some (- 3000)"
  using init_checks_no_sign [of "- 16" "- 10" 0 0 "- 3000"] by auto

subsection \<open>Distance and bearing of opposite points\<close>

text \<open>
  The bearing is \<open>- arctan (x / y)\<close>, and \<open>x / y\<close> is the same for a point and for the
  point opposite to it through the camera footpoint.
\<close>

lemma distanceBearing_reflect:
  assumes "pos_x s \<noteq> None" "pos_y s \<noteq> None"
  shows "distanceBearing s (reflect_footpoint s p) = distanceBearing s p"
proof -
  obtain p0 p1 p2 where p: "p = (p0, p1, p2)" by (metis prod_cases3)
  obtain px py where q: "pos_x s = Some px" "pos_y s = Some py" using assms by auto
  have a: "(2 * px - p0 - px) = - (p0 - px)" "(2 * py - p1 - py) = - (p1 - py)" by simp_all
  show ?thesis
    unfolding p by (simp add: q a Let_def del: minus_diff_eq)
qed

text \<open>
  C6 at the point \<open>(1, 1, 0)\<close>, the camera footpoint being the origin: the point and the
  point opposite to it, \<open>(-1, -1, 0)\<close>, get the same distance and the same bearing of -45
  degrees, not bearings 180 degrees apart.
\<close>

theorem distanceBearing_same_bearing:
  "distanceBearing camera_90 (1, 1, 0) = Inr (sqrt 2, - 45)
   \<and> distanceBearing camera_90 (reflect_footpoint camera_90 (1, 1, 0)) = Inr (sqrt 2, - 45)"
  by (simp add: init_90 arctan_one)

subsection \<open>The earth-curvature transforms\<close>

lemma sqrt_R_earth_squared: "sqrt 40589641000000 = 6371000"
proof -
  have "sqrt ((6371000::real) ^ 2) = 6371000" by (simp only: real_sqrt_abs abs_numeral)
  then show ?thesis by simp
qed

text \<open>
  C4 at the world point \<open>(0, 0, 0)\<close>, whose distance from the earth centre is the earth
  radius: \<open>transWorldToEarth\<close> gives \<open>(0, pi / 2 * R, R)\<close>, and \<open>transEarthToWorld\<close> of
  that is \<open>(0, 2 R, 2 R - sqrt 2 * R)\<close>, more than twelve thousand kilometres from the
  point the round trip started at.
\<close>

theorem earth_roundtrip_origin:
  "earth_roundtrip camera_90 [[0, 0, 0]] 0 = Inr [0, 12742000, 12742000 - 6371000 * sqrt 2]"
  by (simp add: earth_roundtrip_def transWorldToEarth_def transEarthToWorld_def array_copy_def
      norm3_def init_90 Let_def sqrt_R_earth_squared tan_45 cos_45 arccos_0 [simplified])

text \<open>
  C10. For every array \<open>x\<close> of the store, \<open>transWorldToEarth(x)\<close> and
  \<open>transEarthToWorld(x)\<close> leave the camera object and every array of the store, \<open>x\<close>
  among them, as they were; when they return, the result is a new array, not one of the
  store, as long as \<open>x\<close> and with the first component of \<open>x\<close>.
\<close>

theorem earth_transforms_frame:
  assumes "a < length h"
  shows "frame_ok s h a (transWorldToEarth s h a) \<and> frame_ok s h a (transEarthToWorld s h a)"
  using assms
  by (simp add: frame_ok_def transWorldToEarth_def transEarthToWorld_def array_copy_def Let_def
       nth_append)

theorem earth_transforms_frame_witness:
  "frame_ok camera_90 [[0, 0, 0]] 0 (transWorldToEarth camera_90 [[0, 0, 0]] 0)
   \<and> frame_ok camera_90 [[0, 0, 0]] 0 (transEarthToWorld camera_90 [[0, 0, 0]] 0)
   \<and> fst (transWorldToEarth camera_90 [[0, 0, 0]] 0) = Inr 1
   \<and> fst (transEarthToWorld camera_90 [[0, 0, 0]] 0) = Inr 1"
  using earth_transforms_frame [of 0 "[[0, 0, 0]]" camera_90]
  by (simp add: transWorldToEarth_def transEarthToWorld_def array_copy_def norm3_def init_90
       Let_def sqrt_R_earth_squared)

subsection \<open>The iteration of the curvature correction\<close>

lemma round_converged_shift:
  assumes "round_at s point r z = Inr (p0, a0)"
  shows "round_converged s point r z maxd before (Suc j)
         = round_converged s point r (next_height r a0) maxd (Some p0) j"
proof (cases j)
  case 0
  then show ?thesis using assms by (auto simp: round_converged_def split: sum.splits)
next
  case (Suc i)
  then show ?thesis using assms by (auto simp: round_converged_def split: sum.splits)
qed

lemma round_converged_0:
  assumes "round_at s point r z = Inr (p0, a0)"
  shows "round_converged s point r z maxd before 0
         = (before \<noteq> None \<and> norm3 (vsub p0 (the before)) < maxd)"
  using assms by (cases before) (simp_all add: round_converged_def)

lemma earth_iter_returns:
  assumes "\<forall>j<n. \<not> isl (estimate s point r z j)" and "0 < n"
  shows "\<exists>res. earth_iter s point r H maxd n before z carried = Inr res"
  using assms
proof (induction n arbitrary: before z carried)
  case 0
  then show ?case by simp
next
  case (Suc n)
  from Suc.prems(1) have "\<not> isl (estimate s point r z 0)" by blast
  then obtain p0 a0 where r0: "round_at s point r z = Inr (p0, a0)"
    by (cases "round_at s point r z") auto
  show ?case
  proof (cases "n = 0")
    case True
    then show ?thesis by (simp add: r0)
  next
    case False
    have "\<forall>j<n. \<not> isl (estimate s point r (next_height r a0) j)"
    proof (intro allI impI)
      fix j assume "j < n"
      then have "Suc j < Suc n" by simp
      then have "\<not> isl (estimate s point r z (Suc j))" using Suc.prems(1) by blast
      then show "\<not> isl (estimate s point r (next_height r a0) j)" by (simp add: r0)
    qed
    then obtain res where
      "earth_iter s point r H maxd n (Some p0) (next_height r a0) (Some p0, a0) = Inr res"
      using Suc.IH False by blast
    then obtain v c k where rec:
      "earth_iter s point r H maxd n (Some p0) (next_height r a0) (Some p0, a0) = Inr (v, c, k)"
      by (metis prod_cases3)
    show ?thesis
    proof (cases "before \<noteq> None \<and> norm3 (vsub p0 (the before)) < maxd")
      case True
      then have "earth_iter s point r H maxd (Suc n) before z carried
                 = Inr ((fst p0, r * a0, H), (Some p0, a0), 1)"
        by (auto simp: r0)
      then show ?thesis by blast
    next
      case False
      then have "earth_iter s point r H maxd (Suc n) before z carried = Inr (v, c, Suc k)"
        by (auto simp: r0 rec)
      then show ?thesis by blast
    qed
  qed
qed

lemma earth_iter_rounds:
  assumes "earth_iter s point r H maxd n before z carried = Inr (res, c, k)" and "0 < n"
  shows "1 \<le> k \<and> k \<le> n
       \<and> (\<exists>p a. estimate s point r z (k - 1) = Inr (p, a) \<and> res = (fst p, r * a, H) \<and> c = (Some p, a))
       \<and> (k < n \<longrightarrow> round_converged s point r z maxd before (k - 1))
       \<and> (\<forall>j<k - 1. \<not> round_converged s point r z maxd before j)"
  using assms
proof (induction n arbitrary: before z carried res c k)
  case 0
  then show ?case by simp
next
  case (Suc n)
  obtain p0 a0 where r0: "round_at s point r z = Inr (p0, a0)"
    using Suc.prems(1) by (cases "round_at s point r z") auto
  show ?case
  proof (cases "before \<noteq> None \<and> norm3 (vsub p0 (the before)) < maxd")
    case True
    then have "res = (fst p0, r * a0, H)" "c = (Some p0, a0)" "k = 1"
      using Suc.prems(1) by (simp_all add: r0)
    then show ?thesis using True by (simp add: r0 round_converged_0 [OF r0])
  next
    case False
    then obtain k' where rec: "earth_iter s point r H maxd n (Some p0) (next_height r a0) (Some p0, a0)
                          = Inr (res, c, k')" and k: "k = Suc k'"
      using Suc.prems(1) by (auto simp: r0 split: sum.splits)
    have nc0: "\<not> round_converged s point r z maxd before 0"
      using False by (simp add: round_converged_0 [OF r0])
    show ?thesis
    proof (cases "n = 0")
      case True
      then have "res = (fst p0, r * a0, H)" "c = (Some p0, a0)" "k' = 0"
        using rec by simp_all
      then show ?thesis using True k by (simp add: r0)
    next
      case n: False
      have IH: "1 \<le> k' \<and> k' \<le> n
         \<and> (\<exists>p a. estimate s point r (next_height r a0) (k' - 1) = Inr (p, a)
                 \<and> res = (fst p, r * a, H) \<and> c = (Some p, a))
         \<and> (k' < n \<longrightarrow> round_converged s point r (next_height r a0) maxd (Some p0) (k' - 1))
         \<and> (\<forall>j<k' - 1. \<not> round_converged s point r (next_height r a0) maxd (Some p0) j)"
        using Suc.IH [OF rec] n by simp
      then obtain i where i: "k' = Suc i" by (cases k') auto
      have e: "estimate s point r z (k - 1) = estimate s point r (next_height r a0) (k' - 1)"
        by (simp add: k i r0)
      have cv: "round_converged s point r z maxd before (k - 1)
                = round_converged s point r (next_height r a0) maxd (Some p0) (k' - 1)"
        by (simp add: k i round_converged_shift [OF r0])
      have nc: "\<not> round_converged s point r z maxd before j" if "j < k - 1" for j
      proof (cases j)
        case 0
        then show ?thesis by (simp add: nc0)
      next
        case (Suc j')
        then have "j' < k' - 1" using that k by simp
        then show ?thesis using IH Suc by (simp add: round_converged_shift [OF r0])
      qed
      show ?thesis
        using IH e cv nc k by auto
    qed
  qed
qed


lemma init_down:
  "init (Some 16) (Some (Width 10)) (Some (4000, 3000)) (Some 20) (Some 0) = Inr camera_down"
  "self_C camera_down = Some ((6400, 0, 2000, -40000), (0, 6400, 1500, -30000), (0, 0, 1, -20))"
  "R_earth camera_down = 6371000"
  by (simp_all add: camera_down_def init_def truthy_def class_defaults_def initIntrinsicMatrix_def
        initCameraMatrix_def store_args_def roll_radians_def heading_radians_def
        build_matrices_def rot_tilt_def rot_z_def dot_33_33_def transpose33_def
        hstack_33_31_def dot_34_44_def Let_def)

lemma round_at_down: "round_at camera_down (2000, 1500) 6371000 0 = Inr ((0, 0, 0), 0)"
  by (simp add: round_at_def transCamToWorldFixedDimension_def init_down linalg_solve_def
        det33_def cramer_def replace_col33_def transpose33_def)

lemma estimate_down: "estimate camera_down (2000, 1500) 6371000 0 j = Inr ((0, 0, 0), 0)"
  by (induction j) (simp_all add: round_at_down next_height_def)

text \<open>
  C8, as the claim states it, fails for a \<open>max_iter\<close> of 0: no round is run, the
  \<open>else\<close> branch of the loop reads \<open>new_point[0]\<close> while \<open>new_point\<close> is still None, and
  the call raises instead of returning a point.
\<close>

theorem transCamToEarth_no_round:
  "transCamToEarth camera_down [(2000, 1500)] None 0 (1 / 100) = Inl TypeError"
  by (simp add: transCamToEarth_def)

lemma earth_iter_carried:
  "0 < n \<Longrightarrow> earth_iter s point r H maxd n before z carried
           = earth_iter s point r H maxd n before z carried'"
  by (cases n) simp_all

text \<open>
  C8, amended. With a \<open>max_iter\<close> of at least 1 and as long as every back-projection of
  the iteration has a result, the iteration of an input point returns: it runs \<open>k\<close> rounds
  with \<open>1 \<le> k \<le> max_iter\<close>; what it returns is made of the last position computed, number
  \<open>k - 1\<close> of the sequence, as \<open>(x, r * alpha, H)\<close>; it stops before \<open>max_iter\<close> rounds
  only in a round whose position is closer than \<open>max_distance\<close> to the one before, and in
  no earlier round were two successive positions that close. When the rounds are used up
  it returns the same way, with no error. The values left from an earlier input point
  play no part.
\<close>

theorem earth_iter_bounded:
  assumes "0 < n" and "\<forall>j<n. \<not> isl (estimate s point (R_earth s + H) H j)"
  shows "\<exists>res c k.
           earth_iter s point (R_earth s + H) H maxd n None H carried = Inr (res, c, k)
         \<and> transCamToEarth s [point] (Some H) (int n) maxd = Inr [res]
         \<and> 1 \<le> k \<and> k \<le> n
         \<and> (\<exists>p a. estimate s point (R_earth s + H) H (k - 1) = Inr (p, a)
                  \<and> res = (fst p, (R_earth s + H) * a, H))
         \<and> (k < n \<longrightarrow> round_converged s point (R_earth s + H) H maxd None (k - 1))
         \<and> (\<forall>j<k - 1. \<not> round_converged s point (R_earth s + H) H maxd None j)"
proof -
  obtain res c k where
    it: "earth_iter s point (R_earth s + H) H maxd n None H carried = Inr (res, c, k)"
    using earth_iter_returns [OF assms(2) assms(1)] by (metis prod_cases3)
  have "earth_iter s point (R_earth s + H) H maxd n None H (None, 0) = Inr (res, c, k)"
    using it earth_iter_carried [OF assms(1)] by metis
  then have top: "transCamToEarth s [point] (Some H) (int n) maxd = Inr [res]"
    by (simp add: transCamToEarth_def)
  show ?thesis
    using earth_iter_rounds [OF it assms(1)] it top by blast
qed

theorem earth_iter_bounded_witness:
  "\<exists>k. earth_iter camera_down (2000, 1500) 6371000 0 (1 / 100) 3 None 0 (None, 0)
          = Inr ((0, 0, 0), (Some (0, 0, 0), 0), k)
       \<and> transCamToEarth camera_down [(2000, 1500)] (Some 0) 3 (1 / 100) = Inr [(0, 0, 0)]
       \<and> k = 2 \<and> round_converged camera_down (2000, 1500) 6371000 0 (1 / 100) None 1"
proof -
  have h: "\<forall>j<3. \<not> isl (estimate camera_down (2000, 1500) (R_earth camera_down + 0) 0 j)"
    by (simp add: init_down estimate_down)
  have e: "earth_iter camera_down (2000, 1500) 6371000 0 (1 / 100) 3 None 0 (None, 0)
           = Inr ((0, 0, 0), (Some (0, 0, 0), 0), 2)"
    by (simp add: numeral_3_eq_3 round_at_down next_height_def norm3_def)
  show ?thesis
    using earth_iter_bounded [OF _ h, of "1 / 100" "(None, 0)"] e
    by (auto simp: init_down)
qed

end
